theory Spec2Isabelle
  imports Complex_Main
begin

section \<open>JavaScript numbers\<close>

text \<open>
  The solver computes with JavaScript numbers. A number is modelled as one of the three
  special values of IEEE 754 (the two infinities and NaN) or a finite value, which is a real:
  the rules for the special values are the ones of the language (NaN is contagious and
  compares false with everything, \<open>x / 0\<close> is an infinity or NaN, \<open>Infinity - Infinity\<close> is
  NaN), and arithmetic on finite values is exact. Rounding to 53 bits, overflow of a finite
  result to an infinity and the sign of zero are not modelled, so the theorems below speak
  about the control flow and the special values of the program, not about rounding errors.
\<close>

datatype number = Fin real | PosInf | NegInf | NaN

text \<open>
  The operators \<open>+\<close>, unary \<open>-\<close>, \<open>*\<close>, \<open>/\<close>, \<open>Math.abs\<close>, \<open><\<close> and \<open><=\<close> of the language;
  \<open>x > y\<close> is \<open>y < x\<close>. The constant \<open>inverse\<close> only exists because the notation \<open>/\<close>
  belongs to its type class; the program never uses it.
\<close>

instantiation number :: "{plus, uminus, times, inverse, abs, ord}"
begin

fun uminus_number :: "number \<Rightarrow> number" where
  "uminus_number (Fin x) = Fin (- x)"
| "uminus_number PosInf = NegInf"
| "uminus_number NegInf = PosInf"
| "uminus_number NaN = NaN"

fun plus_number :: "number \<Rightarrow> number \<Rightarrow> number" where
  "plus_number (Fin x) (Fin y) = Fin (x + y)"
| "plus_number NaN _ = NaN"
| "plus_number _ NaN = NaN"
| "plus_number PosInf NegInf = NaN"
| "plus_number NegInf PosInf = NaN"
| "plus_number PosInf _ = PosInf"
| "plus_number _ PosInf = PosInf"
| "plus_number NegInf _ = NegInf"
| "plus_number _ NegInf = NegInf"

fun times_number :: "number \<Rightarrow> number \<Rightarrow> number" where
  "times_number (Fin x) (Fin y) = Fin (x * y)"
| "times_number NaN _ = NaN"
| "times_number _ NaN = NaN"
| "times_number (Fin x) PosInf = (if x = 0 then NaN else if 0 < x then PosInf else NegInf)"
| "times_number (Fin x) NegInf = (if x = 0 then NaN else if 0 < x then NegInf else PosInf)"
| "times_number PosInf (Fin y) = (if y = 0 then NaN else if 0 < y then PosInf else NegInf)"
| "times_number NegInf (Fin y) = (if y = 0 then NaN else if 0 < y then NegInf else PosInf)"
| "times_number PosInf PosInf = PosInf"
| "times_number PosInf NegInf = NegInf"
| "times_number NegInf PosInf = NegInf"
| "times_number NegInf NegInf = PosInf"

fun divide_number :: "number \<Rightarrow> number \<Rightarrow> number" where
  "divide_number (Fin x) (Fin y) =
     (if y = 0 then (if x = 0 then NaN else if 0 < x then PosInf else NegInf)
      else Fin (x / y))"
| "divide_number NaN _ = NaN"
| "divide_number _ NaN = NaN"
| "divide_number (Fin x) PosInf = Fin 0"
| "divide_number (Fin x) NegInf = Fin 0"
| "divide_number PosInf (Fin y) = (if 0 \<le> y then PosInf else NegInf)"
| "divide_number NegInf (Fin y) = (if 0 \<le> y then NegInf else PosInf)"
| "divide_number PosInf PosInf = NaN"
| "divide_number PosInf NegInf = NaN"
| "divide_number NegInf PosInf = NaN"
| "divide_number NegInf NegInf = NaN"

fun inverse_number :: "number \<Rightarrow> number" where
  "inverse_number (Fin x) = (if x = 0 then PosInf else Fin (1 / x))"
| "inverse_number PosInf = Fin 0"
| "inverse_number NegInf = Fin 0"
| "inverse_number NaN = NaN"

fun abs_number :: "number \<Rightarrow> number" where
  "abs_number (Fin x) = Fin \<bar>x\<bar>"
| "abs_number PosInf = PosInf"
| "abs_number NegInf = PosInf"
| "abs_number NaN = NaN"

fun less_number :: "number \<Rightarrow> number \<Rightarrow> bool" where
  "less_number (Fin x) (Fin y) = (x < y)"
| "less_number NaN _ = False"
| "less_number _ NaN = False"
| "less_number _ NegInf = False"
| "less_number PosInf _ = False"
| "less_number NegInf _ = True"
| "less_number _ PosInf = True"

fun less_eq_number :: "number \<Rightarrow> number \<Rightarrow> bool" where
  "less_eq_number (Fin x) (Fin y) = (x \<le> y)"
| "less_eq_number NaN _ = False"
| "less_eq_number _ NaN = False"
| "less_eq_number NegInf _ = True"
| "less_eq_number _ PosInf = True"
| "less_eq_number PosInf _ = False"
| "less_eq_number _ NegInf = False"

instance ..

end

instantiation number :: minus
begin

definition minus_number :: "number \<Rightarrow> number \<Rightarrow> number" where
  "minus_number x y = x + (- y)"

instance ..

end

text \<open>\<open>x === y\<close> on numbers: NaN is not equal to itself.\<close>

definition strictEq :: "number \<Rightarrow> number \<Rightarrow> bool" where
  "strictEq x y = (x \<noteq> NaN \<and> x = y)"

text \<open>\<open>x ** 2\<close>.\<close>

definition pow2 :: "number \<Rightarrow> number" where
  "pow2 x = x * x"

fun isFinite :: "number \<Rightarrow> bool" where
  "isFinite (Fin x) = True"
| "isFinite PosInf = False"
| "isFinite NegInf = False"
| "isFinite NaN = False"

text \<open>
  The functions of \<open>Math\<close>, with the results the language fixes at the special values and
  outside the domain, and the mathematical function on the finite numbers of the domain.
\<close>

definition Math_PI :: number where
  "Math_PI = Fin pi"

fun Math_sqrt :: "number \<Rightarrow> number" where
  "Math_sqrt (Fin x) = (if x < 0 then NaN else Fin (sqrt x))"
| "Math_sqrt PosInf = PosInf"
| "Math_sqrt NegInf = NaN"
| "Math_sqrt NaN = NaN"

fun Math_cosh :: "number \<Rightarrow> number" where
  "Math_cosh (Fin x) = Fin (cosh x)"
| "Math_cosh PosInf = PosInf"
| "Math_cosh NegInf = PosInf"
| "Math_cosh NaN = NaN"

fun Math_sinh :: "number \<Rightarrow> number" where
  "Math_sinh (Fin x) = Fin (sinh x)"
| "Math_sinh PosInf = PosInf"
| "Math_sinh NegInf = NegInf"
| "Math_sinh NaN = NaN"

fun Math_acosh :: "number \<Rightarrow> number" where
  "Math_acosh (Fin x) = (if x < 1 then NaN else Fin (arcosh x))"
| "Math_acosh PosInf = PosInf"
| "Math_acosh NegInf = NaN"
| "Math_acosh NaN = NaN"

fun Math_log :: "number \<Rightarrow> number" where
  "Math_log (Fin x) = (if x < 0 then NaN else if x = 0 then NegInf else Fin (ln x))"
| "Math_log PosInf = PosInf"
| "Math_log NegInf = NaN"
| "Math_log NaN = NaN"


section \<open>The Newton-Raphson solver (src/src/cat.tsx)\<close>

type_synonym point = "number \<times> number"
type_synonym points = "point \<times> point"
type_synonym vec3 = "number \<times> number \<times> number"

text \<open>The object \<open>{a, b, c}\<close> that \<open>solveCatenary\<close> returns.\<close>

record catenary =
  cat_a :: number
  cat_b :: number
  cat_c :: number

text \<open>
  The three errors \<open>solveCatenary\<close> throws: "Arc length must be positive", "Points must
  have different x-coordinates", and "Arc length s is less than minimum possible
  minArcLength" with the two numbers of its message.
\<close>

datatype error =
    ArcLengthNotPositive
  | SameXCoordinates
  | ArcLengthTooShort number number

text \<open>
  The inner functions of \<open>solveCatenary\<close> close over \<open>points\<close> and \<open>s\<close>; here they take
  them as their first arguments. Euclidean norm of a residual, as both
  \<open>Math.sqrt(f[0] * f[0] + f[1] * f[1] + f[2] * f[2])\<close> and
  \<open>Math.sqrt(r[0] ** 2 + r[1] ** 2 + r[2] ** 2)\<close> compute it.
\<close>

definition norm3 :: "vec3 \<Rightarrow> number" where
  "norm3 f = (let (f0, f1, f2) = f in Math_sqrt (f0 * f0 + f1 * f1 + f2 * f2))"

definition equations :: "points \<Rightarrow> number \<Rightarrow> vec3 \<Rightarrow> vec3" where
  "equations points s params =
     (let ((x1, y1), (x2, y2)) = points; (a, b, c) = params in
      if a \<le> Fin 0 then (PosInf, PosInf, PosInf)
      else
        let arg1 = (x1 - b) / a;
            arg2 = (x2 - b) / a;
            cosh1 = Math_cosh arg1;
            cosh2 = Math_cosh arg2;
            sinh1 = Math_sinh arg1;
            sinh2 = Math_sinh arg2;
            eq1 = a * cosh1 + c - y1;
            eq2 = a * cosh2 + c - y2;
            eq3 = a * (sinh2 - sinh1) - s
        in (eq1, eq2, eq3))"

definition jacobian :: "points \<Rightarrow> number \<Rightarrow> vec3 \<Rightarrow> number list list" where
  "jacobian points s params =
     (let ((x1, y1), (x2, y2)) = points; (a, b, c) = params in
      if a \<le> Fin 0
      then [[Fin 0, Fin 0, Fin 0], [Fin 0, Fin 0, Fin 0], [Fin 0, Fin 0, Fin 0]]
      else
        let arg1 = (x1 - b) / a;
            arg2 = (x2 - b) / a;
            cosh1 = Math_cosh arg1;
            cosh2 = Math_cosh arg2;
            sinh1 = Math_sinh arg1;
            sinh2 = Math_sinh arg2;
            J11 = cosh1 - arg1 * sinh1;
            J12 = sinh1;
            J13 = Fin 1;
            J21 = cosh2 - arg2 * sinh2;
            J22 = sinh2;
            J23 = Fin 1;
            J31 = sinh2 - sinh1 - (arg2 * cosh2 - arg1 * cosh1);
            J32 = cosh1 - cosh2;
            J33 = Fin 0
        in [[J11, J12, J13], [J21, J22, J23], [J31, J32, J33]])"

subsection \<open>Gaussian elimination\<close>

text \<open>
  \<open>solveLinearSystem\<close> works on the augmented matrix, a mutable array of rows; every loop
  is a function that takes the matrix and returns it updated. The matrix is 3 by 3 and
  the right-hand side has 3 entries, as \<open>jacobian\<close> and \<open>newtonRaphson\<close> build them, so
  every index is in range.
\<close>

definition augment :: "number list list \<Rightarrow> number list \<Rightarrow> number list list" where
  "augment A b = map (\<lambda>(row, i). row @ [b ! i]) (zip A [0..<length A])"

text \<open>The search for the pivot row: \<open>for (let k = i + 1; k < n; k++)\<close>.\<close>

function findPivot :: "number list list \<Rightarrow> nat \<Rightarrow> nat \<Rightarrow> nat \<Rightarrow> nat" where
  "findPivot augmented i k maxRow =
     (if k < 3
      then findPivot augmented i (k + 1)
             (if \<bar>augmented ! maxRow ! i\<bar> < \<bar>augmented ! k ! i\<bar> then k else maxRow)
      else maxRow)"
  by pat_completeness auto
termination
  by (relation "measure (\<lambda>(augmented, i, k, maxRow). 3 - k)") auto

declare findPivot.simps [simp del]

text \<open>\<open>[augmented[i], augmented[maxRow]] = [augmented[maxRow], augmented[i]]\<close>.\<close>

definition swapRows :: "number list list \<Rightarrow> nat \<Rightarrow> nat \<Rightarrow> number list list" where
  "swapRows augmented i maxRow =
     (augmented[i := augmented ! maxRow])[maxRow := augmented ! i]"

text \<open>The innermost loop, \<open>for (let j = i; j <= n; j++)\<close>, on row \<open>k\<close>.\<close>

function eliminateRow ::
  "number list list \<Rightarrow> nat \<Rightarrow> nat \<Rightarrow> number \<Rightarrow> nat \<Rightarrow> number list list" where
  "eliminateRow augmented i k factor j =
     (if j \<le> 3
      then eliminateRow
             (augmented[k := (augmented ! k)[j := augmented ! k ! j - factor * augmented ! i ! j]])
             i k factor (j + 1)
      else augmented)"
  by pat_completeness auto
termination
  by (relation "measure (\<lambda>(augmented, i, k, factor, j). 4 - j)") auto

declare eliminateRow.simps [simp del]

text \<open>The loop over the rows below the pivot, \<open>for (let k = i + 1; k < n; k++)\<close>.\<close>

function eliminateBelow :: "number list list \<Rightarrow> nat \<Rightarrow> nat \<Rightarrow> number list list" where
  "eliminateBelow augmented i k =
     (if k < 3
      then let factor = augmented ! k ! i / augmented ! i ! i
           in eliminateBelow (eliminateRow augmented i k factor i) i (k + 1)
      else augmented)"
  by pat_completeness auto
termination
  by (relation "measure (\<lambda>(augmented, i, k). 3 - k)") auto

declare eliminateBelow.simps [simp del]

text \<open>Forward elimination, \<open>for (let i = 0; i < n; i++)\<close>.\<close>

function forwardElimination :: "number list list \<Rightarrow> nat \<Rightarrow> number list list" where
  "forwardElimination augmented i =
     (if i < 3
      then let maxRow = findPivot augmented i (i + 1) i;
               swapped = swapRows augmented i maxRow
           in forwardElimination (eliminateBelow swapped i (i + 1)) (i + 1)
      else augmented)"
  by pat_completeness auto
termination
  by (relation "measure (\<lambda>(augmented, i). 3 - i)") auto

declare forwardElimination.simps [simp del]

text \<open>
  Back substitution. The inner loop \<open>for (let j = i + 1; j < n; j++)\<close> subtracts the known
  terms from \<open>solution[i]\<close>; the outer loop \<open>for (let i = n - 1; i >= 0; i--)\<close> counts
  down, so \<open>backSubstitution\<close> recurses on the number of rows still to do.
\<close>

function subtractKnown ::
  "number list list \<Rightarrow> number list \<Rightarrow> nat \<Rightarrow> nat \<Rightarrow> number list" where
  "subtractKnown augmented solution i j =
     (if j < 3
      then subtractKnown augmented
             (solution[i := solution ! i - augmented ! i ! j * solution ! j]) i (j + 1)
      else solution)"
  by pat_completeness auto
termination
  by (relation "measure (\<lambda>(augmented, solution, i, j). 3 - j)") auto

declare subtractKnown.simps [simp del]

fun backSubstitution :: "number list list \<Rightarrow> number list \<Rightarrow> nat \<Rightarrow> number list" where
  "backSubstitution augmented solution 0 = solution"
| "backSubstitution augmented solution (Suc i) =
     (let solution1 = solution[i := augmented ! i ! 3];
          solution2 = subtractKnown augmented solution1 i (i + 1);
          solution3 = solution2[i := solution2 ! i / augmented ! i ! i]
      in backSubstitution augmented solution3 i)"

text \<open>
  The function has no \<open>throw\<close> and no test of a pivot: it always returns the vector. The
  sum type is there for the \<open>try\<close> around its call in \<open>newtonRaphson\<close>, whose \<open>catch\<close>
  takes whatever is thrown.
\<close>

datatype exception = Exception

definition solveLinearSystem ::
  "number list list \<Rightarrow> number list \<Rightarrow> exception + number list" where
  "solveLinearSystem A b =
     (let augmented = forwardElimination (augment A b) 0
      in Inr (backSubstitution augmented [Fin 0, Fin 0, Fin 0] 3))"

subsection \<open>Newton-Raphson with a line search\<close>

text \<open>
  The line search, \<open>for (let ls = 0; ls < 10; ls++)\<close>. The result is the value of \<open>params\<close>
  after the loop: the new parameters when the loop was left by \<open>break\<close>, the old ones
  when it ran to its end.
\<close>

function lineSearch ::
  "points \<Rightarrow> number \<Rightarrow> vec3 \<Rightarrow> number list \<Rightarrow> number \<Rightarrow> nat \<Rightarrow> number \<Rightarrow> vec3" where
  "lineSearch points s params delta residual ls stepSize =
     (if ls < 10
      then
        let (p0, p1, p2) = params;
            newParams = (p0 + stepSize * delta ! 0,
                         p1 + stepSize * delta ! 1,
                         p2 + stepSize * delta ! 2)
        in if Fin 0 < fst newParams \<and>
              (norm3 (equations points s newParams) < residual \<or> ls = 9)
           then newParams
           else lineSearch points s params delta residual (ls + 1) (stepSize * Fin (1 / 2))
      else params)"
  by pat_completeness auto
termination
  by (relation "measure (\<lambda>(points, s, params, delta, residual, ls, stepSize). 10 - ls)") auto

declare lineSearch.simps [simp del]

text \<open>
  The iteration, \<open>for (let iter = 0; iter < maxIter; iter++)\<close>. \<open>None\<close> is \<open>null\<close>. The
  \<open>catch\<close> of the source is the \<open>Inl\<close> case.
\<close>

function newtonRaphsonFrom ::
  "points \<Rightarrow> number \<Rightarrow> vec3 \<Rightarrow> nat \<Rightarrow> nat \<Rightarrow> number \<Rightarrow> vec3 option" where
  "newtonRaphsonFrom points s params iter maxIter tolerance =
     (if iter < maxIter
      then
        let f = equations points s params;
            J = jacobian points s params;
            residual = norm3 f
        in if residual < tolerance then Some params
           else
             (case solveLinearSystem J (let (f0, f1, f2) = f in [- f0, - f1, - f2]) of
                Inl e \<Rightarrow> None
              | Inr delta \<Rightarrow>
                  newtonRaphsonFrom points s
                    (lineSearch points s params delta residual 0 (Fin 1))
                    (iter + 1) maxIter tolerance)
      else None)"
  by pat_completeness auto
termination
  by (relation "measure (\<lambda>(points, s, params, iter, maxIter, tolerance). maxIter - iter)") auto

declare newtonRaphsonFrom.simps [simp del]

text \<open>\<open>newtonRaphson(initialGuess, maxIter = 100, tolerance = 1e-10)\<close>.\<close>

definition newtonRaphson :: "points \<Rightarrow> number \<Rightarrow> vec3 \<Rightarrow> vec3 option" where
  "newtonRaphson points s initialGuess =
     newtonRaphsonFrom points s initialGuess 0 100 (Fin (1 / 10 ^ 10))"

subsection \<open>The initial guesses and the driver\<close>

definition estimatedA :: "points \<Rightarrow> number \<Rightarrow> number" where
  "estimatedA points s =
     (let ((x1, y1), (x2, y2)) = points;
          dx = x2 - x1;
          estimate = s / (Fin 2 * Math_sinh (dx / (Fin 2 * s / Math_PI)))
      in if \<not> isFinite estimate \<or> estimate \<le> Fin 0 then s / Fin 4 else estimate)"

text \<open>The three guesses that one pass of \<open>for (const aFactor of [0.5, 1.5, 2.0, 3.0])\<close> pushes.\<close>

definition pushVariants :: "points \<Rightarrow> number \<Rightarrow> number \<Rightarrow> vec3 list \<Rightarrow> vec3 list" where
  "pushVariants points s aFactor initialGuesses =
     (let ((x1, y1), (x2, y2)) = points;
          midX = (x1 + x2) / Fin 2;
          midY = (y1 + y2) / Fin 2;
          dx = x2 - x1;
          a = estimatedA points s * aFactor
      in initialGuesses @
           [(a, midX, midY - a),
            (a, midX + dx * Fin (1 / 10), midY - a),
            (a, midX - dx * Fin (1 / 10), midY - a)])"

definition initialGuesses :: "points \<Rightarrow> number \<Rightarrow> vec3 list" where
  "initialGuesses points s =
     (let ((x1, y1), (x2, y2)) = points;
          midX = (x1 + x2) / Fin 2;
          midY = (y1 + y2) / Fin 2
      in fold (pushVariants points s) [Fin (1 / 2), Fin (3 / 2), Fin 2, Fin 3]
           [(estimatedA points s, midX, midY - estimatedA points s)])"

text \<open>The loop \<open>for (const guess of initialGuesses)\<close> and the \<open>return null\<close> after it.\<close>

fun tryGuesses :: "points \<Rightarrow> number \<Rightarrow> vec3 list \<Rightarrow> catenary option" where
  "tryGuesses points s [] = None"
| "tryGuesses points s (guess # guesses) =
     (case newtonRaphson points s guess of
        None \<Rightarrow> tryGuesses points s guesses
      | Some result \<Rightarrow>
          if Fin 0 < fst result
          then
            let error = norm3 (equations points s result)
            in if error < Fin (1 / 10 ^ 6)
               then Some \<lparr>cat_a = fst result, cat_b = fst (snd result),
                          cat_c = snd (snd result)\<rparr>
               else tryGuesses points s guesses
          else tryGuesses points s guesses)"

definition solveCatenary :: "points \<Rightarrow> number \<Rightarrow> error + catenary option" where
  "solveCatenary points s =
     (let ((x1, y1), (x2, y2)) = points in
      if s \<le> Fin 0 then Inl ArcLengthNotPositive
      else if strictEq x1 x2 then Inl SameXCoordinates
      else
        let minArcLength = Math_sqrt (pow2 (x2 - x1) + pow2 (y2 - y1))
        in if s < minArcLength then Inl (ArcLengthTooShort s minArcLength)
           else Inr (tryGuesses points s (initialGuesses points s)))"


section \<open>The caller and its closed-form solver (src/unnamed/part_000)\<close>


text \<open>
  The file has a \<open>solveCatenary\<close> of its own, here \<open>solveCatenaryApp\<close>: it finds \<open>a\<close> by
  Newton's iteration on the single equation \<open>sinh x = m x\<close> and the offsets by closed
  formulas. Its loop is
  \<open>for (let count = 0; count < 100 && Math.abs(x - prevx) > TOO_SMALL; count++)\<close> with
  \<open>TOO_SMALL = 1e-6\<close>. It has no validation and no \<open>throw\<close>.
\<close>

function iterateX :: "number \<Rightarrow> number \<Rightarrow> number \<Rightarrow> nat \<Rightarrow> number" where
  "iterateX m x prevx count =
     (if count < 100 \<and> Fin (1 / 10 ^ 6) < \<bar>x - prevx\<bar>
      then iterateX m (x - (Math_sinh x - m * x) / (Math_cosh x - m)) x (count + 1)
      else x)"
  by pat_completeness auto
termination
  by (relation "measure (\<lambda>(m, x, prevx, count). 100 - count)") auto

declare iterateX.simps [simp del]

definition solveCatenaryApp :: "points \<Rightarrow> number \<Rightarrow> catenary" where
  "solveCatenaryApp points s =
     (let ((x1, y1), (x2, y2)) = points;
          h = x2 - x1;
          v = y2 - y1;
          m = Math_sqrt (s * s - v * v) / h;
          x = iterateX m (Math_acosh m + Fin 1) (Fin (- 1)) 0;
          a = h / (Fin 2 * x);
          offsetX = x1 - ((a * Math_log ((s + v) / (s - v)) - h) * Fin (1 / 2));
          offsetY = y1 - (a * Math_cosh ((x1 - offsetX) / a))
      in \<lparr>cat_a = a, cat_b = offsetX, cat_c = offsetY\<rparr>)"


section \<open>The specification's formulations\<close>

text \<open>
  The three governing equations of the specification, on real numbers: the two point
  constraints and the arc-length constraint of the curve \<open>y = a cosh((x - b) / a) + c\<close>.
\<close>

definition spec_residuals ::
  "real \<times> real \<Rightarrow> real \<times> real \<Rightarrow> real \<Rightarrow> real \<times> real \<times> real \<Rightarrow> real \<times> real \<times> real" where
  "spec_residuals p1 p2 s params =
     (let (x1, y1) = p1; (x2, y2) = p2; (a, b, c) = params
      in (a * cosh ((x1 - b) / a) + c - y1,
          a * cosh ((x2 - b) / a) + c - y2,
          a * (sinh ((x2 - b) / a) - sinh ((x1 - b) / a)) - s))"

text \<open>The straight-line distance between the two points, the least possible arc length.\<close>

definition straightLineDistance :: "points \<Rightarrow> number" where
  "straightLineDistance points =
     (let ((x1, y1), (x2, y2)) = points
      in Math_sqrt ((x2 - x1) * (x2 - x1) + (y2 - y1) * (y2 - y1)))"

text \<open>
  The list of initial guesses as the specification describes it: the symmetric guess,
  then, for every factor of a given list, the scaled \<open>a\<close> with \<open>b\<close> at the midpoint and at
  the midpoint plus and minus 10% of the x-span.
\<close>

definition spec_variants :: "points \<Rightarrow> number \<Rightarrow> number \<Rightarrow> vec3 list" where
  "spec_variants points s aFactor =
     (let ((x1, y1), (x2, y2)) = points;
          midX = (x1 + x2) / Fin 2;
          midY = (y1 + y2) / Fin 2;
          span = x2 - x1;
          a = estimatedA points s * aFactor
      in [(a, midX, midY - a),
          (a, midX + span * Fin (1 / 10), midY - a),
          (a, midX - span * Fin (1 / 10), midY - a)])"

definition spec_guesses :: "number list \<Rightarrow> points \<Rightarrow> number \<Rightarrow> vec3 list" where
  "spec_guesses factors points s =
     (let ((x1, y1), (x2, y2)) = points;
          midX = (x1 + x2) / Fin 2;
          midY = (y1 + y2) / Fin 2
      in (estimatedA points s, midX, midY - estimatedA points s) #
         concat (map (spec_variants points s) factors))"

text \<open>
  The line search as the specification describes it. Attempt \<open>k\<close> (from 0) tries the step
  size \<open>1 / 2 ^ k\<close>; it improves when the candidate keeps \<open>a > 0\<close> and has a strictly smaller
  residual norm. \<open>spec_lineSearch\<close> takes the first improving candidate among the ten and,
  when there is none, the last candidate whatever it is. \<open>guarded_lineSearch\<close> differs in
  the last case only: the last candidate is taken when it keeps \<open>a > 0\<close>, and the
  parameters stay as they were otherwise.
\<close>

definition candidate :: "vec3 \<Rightarrow> number list \<Rightarrow> nat \<Rightarrow> vec3" where
  "candidate params delta k =
     (let (p0, p1, p2) = params; stepSize = Fin (1 / 2 ^ k)
      in (p0 + stepSize * delta ! 0, p1 + stepSize * delta ! 1, p2 + stepSize * delta ! 2))"

definition improves ::
  "points \<Rightarrow> number \<Rightarrow> vec3 \<Rightarrow> number list \<Rightarrow> number \<Rightarrow> nat \<Rightarrow> bool" where
  "improves points s params delta residual k =
     (Fin 0 < fst (candidate params delta k) \<and>
      norm3 (equations points s (candidate params delta k)) < residual)"

definition spec_lineSearch ::
  "points \<Rightarrow> number \<Rightarrow> vec3 \<Rightarrow> number list \<Rightarrow> number \<Rightarrow> vec3" where
  "spec_lineSearch points s params delta residual =
     (case find (improves points s params delta residual) [0..<10] of
        Some k \<Rightarrow> candidate params delta k
      | None \<Rightarrow> candidate params delta 9)"

definition guarded_lineSearch ::
  "points \<Rightarrow> number \<Rightarrow> vec3 \<Rightarrow> number list \<Rightarrow> number \<Rightarrow> vec3" where
  "guarded_lineSearch points s params delta residual =
     (case find (improves points s params delta residual) [0..<10] of
        Some k \<Rightarrow> candidate params delta k
      | None \<Rightarrow>
          if Fin 0 < fst (candidate params delta 9) then candidate params delta 9 else params)"

text \<open>
  The driver as the specification describes it: the guesses are tried in order, and the
  result is the converged parameters of the first guess that converges and whose
  parameters verify, that is, have a residual norm below \<open>1e-6\<close>; there is no solution
  when no guess does.
\<close>

definition passes_validation :: "points \<Rightarrow> number \<Rightarrow> bool" where
  "passes_validation points s =
     (let ((x1, y1), (x2, y2)) = points
      in \<not> s \<le> Fin 0 \<and> \<not> strictEq x1 x2 \<and> \<not> s < straightLineDistance points)"

definition toCatenary :: "vec3 \<Rightarrow> catenary" where
  "toCatenary result =
     \<lparr>cat_a = fst result, cat_b = fst (snd result), cat_c = snd (snd result)\<rparr>"

definition verifies :: "points \<Rightarrow> number \<Rightarrow> vec3 \<Rightarrow> bool" where
  "verifies points s result = (norm3 (equations points s result) < Fin (1 / 10 ^ 6))"



text \<open>
  An infeasible input of the closed-form solver, on finite coordinates: the two points
  share their x-coordinate, or the arc length is less than the straight-line distance, or
  \<open>s\<^sup>2 \<le> (y2 - y1)\<^sup>2\<close>. A result is finite when none of its three parameters is NaN or
  infinite.
\<close>

definition infeasible :: "real \<times> real \<Rightarrow> real \<times> real \<Rightarrow> real \<Rightarrow> bool" where
  "infeasible p1 p2 s =
     (let (x1, y1) = p1; (x2, y2) = p2
      in x1 = x2 \<or> s < sqrt ((x2 - x1)\<^sup>2 + (y2 - y1)\<^sup>2) \<or> s\<^sup>2 \<le> (y2 - y1)\<^sup>2)"

definition finite_result :: "catenary \<Rightarrow> bool" where
  "finite_result p = (isFinite (cat_a p) \<and> isFinite (cat_b p) \<and> isFinite (cat_c p))"


section \<open>Properties\<close>

subsection \<open>Numbers\<close>


lemma neither_cases: "\<not> a \<le> Fin 0 \<Longrightarrow> \<not> Fin 0 < a \<Longrightarrow> a = NaN"
  by (cases a) auto

lemma NaN_absorb:
  "x + NaN = NaN" "NaN + x = NaN" "x * NaN = NaN" "NaN * x = NaN"
  "x / NaN = NaN" "NaN / x = NaN" "x - NaN = NaN" "NaN - x = NaN"
  by (cases x; simp add: minus_number_def)+

lemma sqrt_100: "sqrt 100 = 10"
  using real_sqrt_abs [of 10] by simp

subsection \<open>The equation builder\<close>



subsection \<open>The line search\<close>

lemma lineSearch_from:
  "ls \<le> 10 \<Longrightarrow>
   lineSearch points s params delta residual ls (Fin (1 / 2 ^ ls)) =
     (case find (\<lambda>k. Fin 0 < fst (candidate params delta k) \<and>
                   (norm3 (equations points s (candidate params delta k)) < residual \<or> k = 9))
             [ls..<10] of
        Some k \<Rightarrow> candidate params delta k
      | None \<Rightarrow> params)"
proof (induction "10 - ls" arbitrary: ls)
  case 0
  then have "ls = 10" by simp
  then show ?case by (simp add: lineSearch.simps)
next
  case (Suc n)
  then have lt: "ls < 10" and n: "n = 10 - Suc ls" and le: "Suc ls \<le> 10" by simp_all
  have upt: "[ls..<10] = ls # [Suc ls..<10]" using lt by (simp add: upt_rec)
  have step: "Fin (1 / 2 ^ ls) * Fin (1 / 2) = Fin (1 / 2 ^ Suc ls)" by simp
  obtain p0 p1 p2 where p: "params = (p0, p1, p2)" by (cases params) auto
  show ?case
    using Suc.hyps(1) [OF n le] lt
    apply (subst lineSearch.simps)
    apply (subst upt)
    apply (simp only: step Suc_eq_plus1 [symmetric])
    apply (auto simp add: candidate_def p Let_def)
    done
qed

lemma find_snoc:
  "find P (xs @ [x]) =
     (case find P xs of Some y \<Rightarrow> Some y | None \<Rightarrow> if P x then Some x else None)"
  by (induction xs) auto

lemma find_last_attempt:
  "(case find (\<lambda>k. G k \<and> (I k \<or> k = n)) [0..<Suc n] of Some k \<Rightarrow> c k | None \<Rightarrow> p) =
   (case find (\<lambda>k. G k \<and> I k) [0..<Suc n] of
      Some k \<Rightarrow> c k
    | None \<Rightarrow> if G n then c n else p)"
proof -
  have same: "find (\<lambda>k. G k \<and> (I k \<or> k = n)) [0..<n] = find (\<lambda>k. G k \<and> I k) [0..<n]"
    by (rule find_cong) auto
  show ?thesis
    by (simp add: find_snoc same split: option.splits)
qed

text \<open>
  C4, as the code has it. In every Newton-Raphson iteration the line search starts at step
  size 1 and halves it for up to ten attempts, and takes the first candidate that keeps
  \<open>a > 0\<close> with a strictly smaller residual norm. When no attempt improves, the tenth
  candidate (step size 1/512) is taken if it keeps \<open>a > 0\<close>, whatever its residual; if it
  does not, the parameters are left as they were. The iteration goes on in both cases.
\<close>

theorem lineSearch_guarded:
  "lineSearch points s params delta residual 0 (Fin 1) =
     guarded_lineSearch points s params delta residual"
proof -
  have ten: "[0..<10] = [0..<Suc 9]" by simp
  have "lineSearch points s params delta residual 0 (Fin 1) =
     (case find (\<lambda>k. Fin 0 < fst (candidate params delta k) \<and>
                   (norm3 (equations points s (candidate params delta k)) < residual \<or> k = 9))
             [0..<10] of
        Some k \<Rightarrow> candidate params delta k
      | None \<Rightarrow> params)"
    using lineSearch_from [of 0 points s params delta residual] by simp
  also have "\<dots> = guarded_lineSearch points s params delta residual"
    unfolding guarded_lineSearch_def improves_def ten by (rule find_last_attempt)
  finally show ?thesis .
qed

text \<open>
  As the specification states it, the property fails: with \<open>a = 1\<close> and a Newton step of
  \<open>-1024\<close> in \<open>a\<close>, all ten candidates have \<open>a \<le> 0\<close>; the last computed update is
  \<open>(-1, 5, 0)\<close>, and the line search keeps \<open>(1, 5, 0)\<close>.
\<close>

theorem lineSearch_counterexample:
  "lineSearch ((Fin 0, Fin 0), (Fin 10, Fin 0)) (Fin 12) (Fin 1, Fin 5, Fin 0)
     [Fin (- 1024), Fin 0, Fin 0] (Fin 1) 0 (Fin 1) = (Fin 1, Fin 5, Fin 0) \<and>
   spec_lineSearch ((Fin 0, Fin 0), (Fin 10, Fin 0)) (Fin 12) (Fin 1, Fin 5, Fin 0)
     [Fin (- 1024), Fin 0, Fin 0] (Fin 1) = (Fin (- 1), Fin 5, Fin 0)"
proof -
  have eq: "lineSearch ((Fin 0, Fin 0), (Fin 10, Fin 0)) (Fin 12) (Fin 1, Fin 5, Fin 0)
     [Fin (- 1024), Fin 0, Fin 0] (Fin 1) 0 (Fin 1) =
     (case find (\<lambda>k. Fin 0 < fst (candidate (Fin 1, Fin 5, Fin 0) [Fin (- 1024), Fin 0, Fin 0] k) \<and>
                   (norm3 (equations ((Fin 0, Fin 0), (Fin 10, Fin 0)) (Fin 12)
                      (candidate (Fin 1, Fin 5, Fin 0) [Fin (- 1024), Fin 0, Fin 0] k)) < Fin 1
                    \<or> k = 9))
             [0..<10] of
        Some k \<Rightarrow> candidate (Fin 1, Fin 5, Fin 0) [Fin (- 1024), Fin 0, Fin 0] k
      | None \<Rightarrow> (Fin 1, Fin 5, Fin 0))"
    using lineSearch_from [of 0 "((Fin 0, Fin 0), (Fin 10, Fin 0))" "Fin 12"
        "(Fin 1, Fin 5, Fin 0)" "[Fin (- 1024), Fin 0, Fin 0]" "Fin 1"] by simp
  show ?thesis
    unfolding eq
    by (simp add: spec_lineSearch_def improves_def candidate_def upt_rec)
qed

subsection \<open>The linear solver and the catch of the driver\<close>

lemmas linear_solver_simps =
  solveLinearSystem_def augment_def forwardElimination.simps findPivot.simps
  eliminateBelow.simps eliminateRow.simps swapRows_def subtractKnown.simps
  minus_number_def Let_def numeral_3_eq_3 upt_rec

text \<open>
  A step of NaN changes nothing: no candidate of the line search has \<open>a > 0\<close>, the
  parameters stay, and the iteration repeats itself until its count runs out.
\<close>

lemma lineSearch_NaN_step:
  "lineSearch points s params [NaN, NaN, NaN] residual ls stepSize = params"
proof (induction "10 - ls" arbitrary: ls stepSize)
  case 0
  then show ?case by (subst lineSearch.simps) simp
next
  case (Suc n)
  then have n: "n = 10 - Suc ls" by simp
  obtain p0 p1 p2 where p: "params = (p0, p1, p2)" by (cases params) auto
  show ?case
    by (subst lineSearch.simps) (simp add: p NaN_absorb Suc.hyps(1) [OF n, unfolded p])
qed

lemma newtonRaphsonFrom_stuck:
  assumes "\<not> norm3 (equations points s params) < tolerance"
    and "solveLinearSystem (jacobian points s params)
           (let (f0, f1, f2) = equations points s params in [- f0, - f1, - f2]) =
         Inr [NaN, NaN, NaN]"
  shows "newtonRaphsonFrom points s params iter maxIter tolerance = None"
proof (induction "maxIter - iter" arbitrary: iter)
  case 0
  then show ?case by (subst newtonRaphsonFrom.simps) simp
next
  case (Suc n)
  then have n: "n = maxIter - Suc iter" by simp
  show ?case
    using assms Suc.hyps(1) [OF n]
    by (subst newtonRaphsonFrom.simps) (simp add: Let_def lineSearch_NaN_step)
qed

lemma infinite_guess_stuck:
  "newtonRaphson ((Fin 0, Fin 0), (Fin 10, Fin 0)) PosInf (PosInf, Fin b, NegInf) = None"
  unfolding newtonRaphson_def
  by (rule newtonRaphsonFrom_stuck)
    (simp_all add: equations_def jacobian_def norm3_def linear_solver_simps cong: let_weak_cong)

text \<open>
  C3. The linear solver never signals a singular system: it has no test of a pivot, and
  the branch of the driver that abandons a guess on such a signal is never taken. On the
  zero matrix that \<open>jacobian\<close> returns for \<open>a \<le> 0\<close>, with the negated sentinel residual as
  right-hand side, and on a singular matrix with finite entries and a finite right-hand
  side, every pivot division is by zero and the solver returns a vector of NaN. The
  second matrix is the Jacobian at the first initial guess for the points \<open>(0, 0)\<close> and
  \<open>(10, 0)\<close> and \<open>s = Infinity\<close>, an input that passes validation; there the iteration
  goes on with the NaN step for each guess, and the result is no solution.
\<close>

theorem solveLinearSystem_zero_pivot:
  "solveLinearSystem A b \<noteq> Inl e \<and>
   solveLinearSystem (jacobian ((Fin 0, Fin 0), (Fin 10, Fin 0)) (Fin 12) (Fin 0, Fin 5, Fin 0))
     [NegInf, NegInf, NegInf] = Inr [NaN, NaN, NaN] \<and>
   solveLinearSystem [[Fin 1, Fin 0, Fin 1], [Fin 1, Fin 0, Fin 1], [Fin 0, Fin 0, Fin 0]]
     [Fin 1, Fin 2, Fin 3] = Inr [NaN, NaN, NaN] \<and>
   passes_validation ((Fin 0, Fin 0), (Fin 10, Fin 0)) PosInf \<and>
   hd (initialGuesses ((Fin 0, Fin 0), (Fin 10, Fin 0)) PosInf) = (PosInf, Fin 5, NegInf) \<and>
   jacobian ((Fin 0, Fin 0), (Fin 10, Fin 0)) PosInf (PosInf, Fin 5, NegInf) =
     [[Fin 1, Fin 0, Fin 1], [Fin 1, Fin 0, Fin 1], [Fin 0, Fin 0, Fin 0]] \<and>
   equations ((Fin 0, Fin 0), (Fin 10, Fin 0)) PosInf (PosInf, Fin 5, NegInf) = (NaN, NaN, NaN) \<and>
   solveLinearSystem (jacobian ((Fin 0, Fin 0), (Fin 10, Fin 0)) PosInf (PosInf, Fin 5, NegInf))
     [NaN, NaN, NaN] = Inr [NaN, NaN, NaN] \<and>
   solveCatenary ((Fin 0, Fin 0), (Fin 10, Fin 0)) PosInf = Inr None"
proof -
  have never: "solveLinearSystem A b \<noteq> Inl e"
    by (simp add: solveLinearSystem_def Let_def)
  have evaluated:
    "solveLinearSystem (jacobian ((Fin 0, Fin 0), (Fin 10, Fin 0)) (Fin 12) (Fin 0, Fin 5, Fin 0))
       [NegInf, NegInf, NegInf] = Inr [NaN, NaN, NaN] \<and>
     solveLinearSystem [[Fin 1, Fin 0, Fin 1], [Fin 1, Fin 0, Fin 1], [Fin 0, Fin 0, Fin 0]]
       [Fin 1, Fin 2, Fin 3] = Inr [NaN, NaN, NaN] \<and>
     passes_validation ((Fin 0, Fin 0), (Fin 10, Fin 0)) PosInf \<and>
     hd (initialGuesses ((Fin 0, Fin 0), (Fin 10, Fin 0)) PosInf) = (PosInf, Fin 5, NegInf) \<and>
     jacobian ((Fin 0, Fin 0), (Fin 10, Fin 0)) PosInf (PosInf, Fin 5, NegInf) =
       [[Fin 1, Fin 0, Fin 1], [Fin 1, Fin 0, Fin 1], [Fin 0, Fin 0, Fin 0]] \<and>
     equations ((Fin 0, Fin 0), (Fin 10, Fin 0)) PosInf (PosInf, Fin 5, NegInf) = (NaN, NaN, NaN) \<and>
     solveLinearSystem (jacobian ((Fin 0, Fin 0), (Fin 10, Fin 0)) PosInf (PosInf, Fin 5, NegInf))
       [NaN, NaN, NaN] = Inr [NaN, NaN, NaN]"
    by (simp add: passes_validation_def strictEq_def straightLineDistance_def sqrt_100
        initialGuesses_def pushVariants_def estimatedA_def Math_PI_def equations_def
        jacobian_def linear_solver_simps cong: let_weak_cong)
  have none: "solveCatenary ((Fin 0, Fin 0), (Fin 10, Fin 0)) PosInf = Inr None"
    by (simp add: solveCatenary_def strictEq_def pow2_def sqrt_100 initialGuesses_def
        pushVariants_def estimatedA_def Math_PI_def minus_number_def Let_def
        infinite_guess_stuck)
  from never evaluated none show ?thesis by blast
qed

subsection \<open>The initial guesses\<close>

lemma initialGuesses_spec:
  "initialGuesses points s = spec_guesses [Fin (1 / 2), Fin (3 / 2), Fin 2, Fin 3] points s"
  by (cases points rule: prod.exhaust [where 'a = point and 'b = point])
    (auto simp add: initialGuesses_def spec_guesses_def pushVariants_def spec_variants_def
        Let_def split: prod.splits)

text \<open>
  C8, as the code has it. The list of initial guesses is the symmetric guess (the
  estimated \<open>a\<close>, which falls back to \<open>s / 4\<close> when the closed-form estimate is not finite
  or not positive, with \<open>b\<close> at the x-midpoint) followed by the variants for the four
  factors 0.5, 1.5, 2 and 3, each with \<open>b\<close> at the midpoint and at the midpoint plus and
  minus 10% of the x-span: 13 guesses. The factor 1 occurs in the symmetric guess only.
\<close>

theorem initialGuesses_four_factors:
  "initialGuesses points s = spec_guesses [Fin (1 / 2), Fin (3 / 2), Fin 2, Fin 3] points s \<and>
   estimatedA ((x1, y1), (x2, y2)) s =
     (if isFinite (s / (Fin 2 * Math_sinh ((x2 - x1) / (Fin 2 * s / Math_PI)))) \<and>
         \<not> s / (Fin 2 * Math_sinh ((x2 - x1) / (Fin 2 * s / Math_PI))) \<le> Fin 0
      then s / (Fin 2 * Math_sinh ((x2 - x1) / (Fin 2 * s / Math_PI)))
      else s / Fin 4)"
  by (simp add: initialGuesses_spec estimatedA_def Let_def)

text \<open>
  For the points \<open>(10, 0)\<close> and \<open>(0, 0)\<close>, in this order, and \<open>s = 12\<close> the closed-form
  estimate is negative, the estimated \<open>a\<close> falls back to \<open>12 / 4\<close>, and the 13 guesses are
  these.
\<close>

lemma estimatedA_swapped: "estimatedA ((Fin 10, Fin 0), (Fin 0, Fin 0)) (Fin 12) = Fin 3"
  by (simp add: estimatedA_def minus_number_def Math_PI_def Let_def)

theorem initialGuesses_four_factors_witness:
  "initialGuesses ((Fin 10, Fin 0), (Fin 0, Fin 0)) (Fin 12) =
     [(Fin 3, Fin 5, Fin (- 3)),
      (Fin (3 / 2), Fin 5, Fin (- 3 / 2)), (Fin (3 / 2), Fin 4, Fin (- 3 / 2)),
      (Fin (3 / 2), Fin 6, Fin (- 3 / 2)),
      (Fin (9 / 2), Fin 5, Fin (- 9 / 2)), (Fin (9 / 2), Fin 4, Fin (- 9 / 2)),
      (Fin (9 / 2), Fin 6, Fin (- 9 / 2)),
      (Fin 6, Fin 5, Fin (- 6)), (Fin 6, Fin 4, Fin (- 6)), (Fin 6, Fin 6, Fin (- 6)),
      (Fin 9, Fin 5, Fin (- 9)), (Fin 9, Fin 4, Fin (- 9)), (Fin 9, Fin 6, Fin (- 9))] \<and>
   estimatedA ((Fin 10, Fin 0), (Fin 0, Fin 0)) (Fin 12) = Fin 3"
  using initialGuesses_four_factors [of "((Fin 10, Fin 0), (Fin 0, Fin 0))" "Fin 12"
      "Fin 10" "Fin 0" "Fin 0" "Fin 0"]
  by (simp add: spec_guesses_def spec_variants_def estimatedA_swapped minus_number_def Let_def)

text \<open>
  With the five factors of the specification the list would have 16 guesses; the code
  makes 13.
\<close>

theorem initialGuesses_five_factors_counterexample:
  "initialGuesses ((Fin 0, Fin 0), (Fin 10, Fin 0)) (Fin 12) \<noteq>
   spec_guesses [Fin (1 / 2), Fin 1, Fin (3 / 2), Fin 2, Fin 3]
     ((Fin 0, Fin 0), (Fin 10, Fin 0)) (Fin 12)"
proof
  assume "initialGuesses ((Fin 0, Fin 0), (Fin 10, Fin 0)) (Fin 12) =
   spec_guesses [Fin (1 / 2), Fin 1, Fin (3 / 2), Fin 2, Fin 3]
     ((Fin 0, Fin 0), (Fin 10, Fin 0)) (Fin 12)"
  then have "length (initialGuesses ((Fin 0, Fin 0), (Fin 10, Fin 0)) (Fin 12)) =
   length (spec_guesses [Fin (1 / 2), Fin 1, Fin (3 / 2), Fin 2, Fin 3]
     ((Fin 0, Fin 0), (Fin 10, Fin 0)) (Fin 12))" by simp
  then show False
    by (simp add: initialGuesses_def spec_guesses_def pushVariants_def spec_variants_def Let_def)
qed

subsection \<open>Validation\<close>




subsection \<open>Bounds on the hyperbolic functions\<close>

lemma cosh_le_exp: "0 \<le> x \<Longrightarrow> cosh x \<le> exp (x::real)"
  unfolding cosh_field_def using exp_le_cancel_iff [of "- x" x] by simp

lemma norm3_small:
  assumes "\<bar>r1\<bar> \<le> B" "\<bar>r2\<bar> \<le> B" "\<bar>r3\<bar> \<le> B" "3 * B\<^sup>2 < t\<^sup>2" "0 < t"
  shows "norm3 (Fin r1, Fin r2, Fin r3) < Fin t"
proof -
  have sq: "r * r \<le> B\<^sup>2" if "\<bar>r\<bar> \<le> B" for r
    using that abs_le_square_iff [of r B] by (simp add: power2_eq_square)
  have sum: "r1 * r1 + r2 * r2 + r3 * r3 < t\<^sup>2"
    using sq [OF assms(1)] sq [OF assms(2)] sq [OF assms(3)] assms(4) by linarith
  have nonneg: "0 \<le> r1 * r1 + r2 * r2 + r3 * r3" by simp
  have "sqrt (r1 * r1 + r2 * r2 + r3 * r3) < sqrt (t\<^sup>2)"
    using sum by (simp only: real_sqrt_less_iff)
  then have "sqrt (r1 * r1 + r2 * r2 + r3 * r3) < t" using assms(5) by simp
  then show ?thesis using nonneg by (simp add: norm3_def not_less)
qed

lemma exp_half_ge: "13 / 8 \<le> exp (1 / 2 :: real)"
proof -
  have "1 + 1 / 2 + (1 / 2)\<^sup>2 / 2 \<le> exp (1 / 2 :: real)"
    by (rule exp_lower_Taylor_quadratic) simp
  then show ?thesis by (simp add: power2_eq_square)
qed

lemma sinh_half_ge: "1 / 2 \<le> sinh (1 / 2 :: real)"
proof -
  have "exp (- (1 / 2) :: real) \<le> 8 / 13"
    using exp_half_ge by (simp add: exp_minus field_simps)
  with exp_half_ge show ?thesis unfolding sinh_field_def by simp
qed

lemma sinh_one_le: "sinh (1::real) \<le> 4 / 3"
proof -
  have "1 / 3 \<le> exp (- 1 :: real)"
    using exp_le exp_gt_zero [of "1::real"] by (simp add: exp_minus field_simps)
  with exp_le show ?thesis unfolding sinh_field_def by simp
qed

lemma sinh_quarter_pi_bounds: "1 / 2 \<le> sinh (pi / 4)" "sinh (pi / 4) \<le> 4 / 3"
proof -
  have "1 / 2 \<le> pi / 4" using pi_ge_two by simp
  then have "sinh (1 / 2) \<le> sinh (pi / 4)" by (simp only: sinh_real_le_iff)
  with sinh_half_ge show "1 / 2 \<le> sinh (pi / 4)" by (rule order_trans)
  have "pi / 4 \<le> 1" using pi_less_4 by simp
  then have "sinh (pi / 4) \<le> sinh 1" by (simp only: sinh_real_le_iff)
  then show "sinh (pi / 4) \<le> 4 / 3" using sinh_one_le by (rule order_trans)
qed

lemma cosh_sinh_le_3:
  assumes "0 \<le> x" "x \<le> (1::real)"
  shows "cosh x \<le> 3" "sinh x \<le> 3"
proof -
  have "cosh x \<le> exp x" using assms(1) by (rule cosh_le_exp)
  also have "\<dots> \<le> exp 1" using assms(2) by simp
  also have "\<dots> \<le> 3" by (rule exp_le)
  finally show c: "cosh x \<le> 3" .
  show "sinh x \<le> 3" using sinh_le_cosh_real [of x] c by linarith
qed

lemma norm3_small_chain:
  assumes "0 < h" "h \<le> 1 / 10 ^ 15"
    and b: "\<bar>r1\<bar> \<le> 20 * h" "\<bar>r2\<bar> \<le> 20 * h" "\<bar>r3\<bar> \<le> 20 * h"
  shows "norm3 (Fin r1, Fin r2, Fin r3) < Fin (1 / 10 ^ 10)"
proof -
  have "20 * h \<le> 20 / 10 ^ 15" using assms(2) by simp
  then have "(20 * h)\<^sup>2 \<le> (20 / 10 ^ 15)\<^sup>2"
    using assms(1) by (intro power_mono) simp_all
  moreover have "3 * (20 / 10 ^ 15)\<^sup>2 < (1 / 10 ^ 10 :: real)\<^sup>2"
    by (simp add: power2_eq_square)
  ultimately have "3 * (20 * h)\<^sup>2 < (1 / 10 ^ 10)\<^sup>2" by linarith
  then show ?thesis by (rule norm3_small [OF b]) simp
qed

subsection \<open>The driver\<close>

lemma norm3_sentinel: "\<not> norm3 (PosInf, PosInf, PosInf) < t"
  by (cases t) (simp_all add: norm3_def)

lemma norm3_NaN: "\<not> norm3 (NaN, f1, f2) < t"
  by (simp add: norm3_def)

lemma equations_NaN: "fst (equations points s (NaN, b, c)) = NaN"
  by (cases points rule: prod.exhaust [where 'a = point and 'b = point])
    (auto simp add: equations_def minus_number_def Let_def split: prod.splits)

lemma small_norm_positive:
  assumes "norm3 (equations points s result) < t"
  shows "Fin 0 < fst result"
proof (rule ccontr)
  assume neg: "\<not> Fin 0 < fst result"
  obtain a b c where r: "result = (a, b, c)" by (cases result) auto
  show False
  proof (cases "a \<le> Fin 0")
    case True
    then have "equations points s result = (PosInf, PosInf, PosInf)"
      by (cases points rule: prod.exhaust [where 'a = point and 'b = point])
        (auto simp add: equations_def r split: prod.splits)
    with assms norm3_sentinel show False by simp
  next
    case False
    with neg r have "a = NaN" by (simp add: neither_cases)
    then obtain f1 f2 where "equations points s result = (NaN, f1, f2)"
      using equations_NaN [of points s b c] r by (cases "equations points s (NaN, b, c)") auto
    with assms norm3_NaN show False by simp
  qed
qed


lemma tryGuesses_verified:
  "tryGuesses points s guesses = Some p \<Longrightarrow>
     verifies points s (cat_a p, cat_b p, cat_c p) \<and> Fin 0 < cat_a p"
proof (induction guesses)
  case Nil
  then show ?case by simp
next
  case (Cons guess guesses)
  then show ?case
    by (auto simp add: verifies_def Let_def split: option.splits if_splits)
qed

lemma newtonRaphson_converged:
  "norm3 (equations points s guess) < Fin (1 / 10 ^ 10) \<Longrightarrow>
     newtonRaphson points s guess = Some guess"
  unfolding newtonRaphson_def
  by (subst newtonRaphsonFrom.simps) (simp add: Let_def)

lemma less_Fin_mono: "x < Fin r \<Longrightarrow> r \<le> r' \<Longrightarrow> x < Fin r'"
  by (cases x) simp_all

lemma tryGuesses_first:
  assumes "norm3 (equations points s guess) < Fin (1 / 10 ^ 10)"
  shows "tryGuesses points s (guess # guesses) = Some (toCatenary guess)"
proof -
  have nr: "newtonRaphson points s guess = Some guess"
    using assms by (rule newtonRaphson_converged)
  have pos: "Fin 0 < fst guess" using assms by (rule small_norm_positive)
  have "norm3 (equations points s guess) < Fin (1 / 10 ^ 6)"
    using assms by (rule less_Fin_mono) simp
  with nr pos show ?thesis by (simp add: toCatenary_def)
qed

lemma solveCatenary_valid:
  "passes_validation points s \<Longrightarrow>
     solveCatenary points s = Inr (tryGuesses points s (initialGuesses points s))"
  by (cases points rule: prod.exhaust [where 'a = point and 'b = point])
    (auto simp add: passes_validation_def solveCatenary_def straightLineDistance_def pow2_def
        Let_def split: prod.splits)

lemma solveCatenary_Some:
  "solveCatenary points s = Inr (Some p) \<Longrightarrow>
     tryGuesses points s (initialGuesses points s) = Some p"
  by (cases points rule: prod.exhaust [where 'a = point and 'b = point])
    (auto simp add: solveCatenary_def Let_def split: prod.splits if_splits)

subsection \<open>A chain of length \<open>2e-20\<close>\<close>

text \<open>
  For the points \<open>(0, 0)\<close> and \<open>(h, 0)\<close> and the arc length \<open>2 h\<close> with a tiny \<open>h\<close>, all the
  residuals of the first guess are of the order of \<open>h\<close>: its norm is below \<open>1e-10\<close> at
  once, and the first guess is what \<open>solveCatenary\<close> returns, in both orders of the points.
\<close>

lemma estimatedA_small:
  assumes "0 < h"
  shows "estimatedA ((Fin 0, Fin 0), (Fin h, Fin 0)) (Fin (2 * h)) = Fin (h / sinh (pi / 4))"
proof -
  have T: "0 < sinh (pi / 4)" using sinh_quarter_pi_bounds(1) by linarith
  have arg: "h / (4 * h / pi) = pi / 4" using assms by (simp add: field_simps)
  have pos: "\<not> h / sinh (pi / 4) \<le> 0" using assms T by (simp add: field_simps)
  show ?thesis
    using assms T pos
    by (simp add: estimatedA_def minus_number_def Math_PI_def Let_def arg)
qed

lemma equations_small:
  assumes "0 < h"
  shows "\<exists>r1 r2 r3.
     equations ((Fin 0, Fin 0), (Fin h, Fin 0)) (Fin (2 * h))
       (Fin (h / sinh (pi / 4)), Fin (h / 2), Fin (- (h / sinh (pi / 4)))) =
       (Fin r1, Fin r2, Fin r3) \<and>
     \<bar>r1\<bar> \<le> 20 * h \<and> \<bar>r2\<bar> \<le> 20 * h \<and> \<bar>r3\<bar> \<le> 20 * h"
proof -
  define T where "T = sinh (pi / 4)"
  define a where "a = h / T"
  have T: "1 / 2 \<le> T" "T \<le> 4 / 3" unfolding T_def by (rule sinh_quarter_pi_bounds)+
  have T0: "0 < T" using T by linarith
  have a0: "0 < a" unfolding a_def using assms T0 by simp
  have a_le: "a \<le> 2 * h" unfolding a_def using assms T T0 by (simp add: field_simps)
  have half: "0 \<le> T / 2" "T / 2 \<le> 1" using T T0 by simp_all
  have C: "cosh (T / 2) \<le> 3" and Sh: "sinh (T / 2) \<le> 3"
    using cosh_sinh_le_3 [OF half] by simp_all
  have C1: "1 \<le> cosh (T / 2)" by (rule cosh_real_ge_1)
  have Sh0: "0 \<le> sinh (T / 2)" using half by simp
  have arg1: "(0 - h / 2) / a = - (T / 2)" unfolding a_def using assms T0 by (simp add: field_simps)
  have arg1': "- (h / 2) / a = - (T / 2)" using arg1 by simp
  have arg2: "(h - h / 2) / a = T / 2" unfolding a_def using assms T0 by (simp add: field_simps)
  have arg2': "h / 2 / a = T / 2" using arg2 by simp
  have eq: "equations ((Fin 0, Fin 0), (Fin h, Fin 0)) (Fin (2 * h)) (Fin a, Fin (h / 2), Fin (- a)) =
      (Fin (a * cosh (T / 2) + - a + - 0), Fin (a * cosh (T / 2) + - a + - 0),
       Fin (a * (sinh (T / 2) + - (- sinh (T / 2))) + - (2 * h)))"
    using a0 arg1 arg2 arg1' arg2' assms T0
    by (simp add: equations_def minus_number_def Let_def)
  have b1: "\<bar>a * cosh (T / 2) + - a + - 0\<bar> \<le> 20 * h"
  proof -
    have "a * cosh (T / 2) \<le> (2 * h) * 3"
      using a_le C a0 C1 assms by (intro mult_mono) simp_all
    moreover have "a \<le> a * cosh (T / 2)" using a0 C1 by simp
    ultimately show ?thesis using a0 assms by simp
  qed
  have b3: "\<bar>a * (sinh (T / 2) + - (- sinh (T / 2))) + - (2 * h)\<bar> \<le> 20 * h"
  proof -
    have "a * sinh (T / 2) \<le> (2 * h) * 3"
      using a_le Sh a0 Sh0 assms by (intro mult_mono) simp_all
    moreover have "0 \<le> a * sinh (T / 2)" using a0 Sh0 by simp
    ultimately show ?thesis using assms by (simp add: algebra_simps abs_le_iff)
  qed
  show ?thesis
    using eq b1 b3 unfolding a_def T_def by blast
qed

lemma small_chain_valid:
  "0 < h \<Longrightarrow> passes_validation ((Fin 0, Fin 0), (Fin h, Fin 0)) (Fin (2 * h))"
  by (simp add: passes_validation_def strictEq_def straightLineDistance_def minus_number_def)

lemma small_chain_solution:
  assumes "0 < h" "h \<le> 1 / 10 ^ 15"
  shows "solveCatenary ((Fin 0, Fin 0), (Fin h, Fin 0)) (Fin (2 * h)) =
     Inr (Some \<lparr>cat_a = Fin (h / sinh (pi / 4)), cat_b = Fin (h / 2),
                 cat_c = Fin (- (h / sinh (pi / 4)))\<rparr>)"
proof -
  let ?P = "((Fin 0, Fin 0), (Fin h, Fin 0))"
  let ?g = "(Fin (h / sinh (pi / 4)), Fin (h / 2), Fin (- (h / sinh (pi / 4))))"
  have valid: "solveCatenary ?P (Fin (2 * h)) =
      Inr (tryGuesses ?P (Fin (2 * h)) (initialGuesses ?P (Fin (2 * h))))"
    using small_chain_valid [OF assms(1)] by (rule solveCatenary_valid)
  have "\<exists>guesses. initialGuesses ?P (Fin (2 * h)) = ?g # guesses"
    unfolding initialGuesses_spec spec_guesses_def
    by (simp add: estimatedA_small [OF assms(1)] minus_number_def)
  then obtain guesses where g: "initialGuesses ?P (Fin (2 * h)) = ?g # guesses" ..
  obtain r1 r2 r3 where eq: "equations ?P (Fin (2 * h)) ?g = (Fin r1, Fin r2, Fin r3)"
    and b: "\<bar>r1\<bar> \<le> 20 * h" "\<bar>r2\<bar> \<le> 20 * h" "\<bar>r3\<bar> \<le> 20 * h"
    using equations_small [OF assms(1)] by blast
  have "norm3 (equations ?P (Fin (2 * h)) ?g) < Fin (1 / 10 ^ 10)"
    unfolding eq using assms b by (rule norm3_small_chain)
  then have "tryGuesses ?P (Fin (2 * h)) (?g # guesses) = Some (toCatenary ?g)"
    by (rule tryGuesses_first)
  then show ?thesis unfolding valid g by (simp add: toCatenary_def)
qed




subsection \<open>What the solver returns\<close>



text \<open>C6. Whenever \<open>solveCatenary\<close> returns catenary parameters, the returned \<open>a\<close> is strictly positive.\<close>

theorem solveCatenary_positive_a:
  "solveCatenary points s = Inr (Some p) \<Longrightarrow> Fin 0 < cat_a p"
  using solveCatenary_Some [of points s p]
    tryGuesses_verified [of points s "initialGuesses points s" p]
  by simp

theorem solveCatenary_positive_a_witness:
  "solveCatenary ((Fin 0, Fin 0), (Fin (1 / 10 ^ 20), Fin 0)) (Fin (2 * (1 / 10 ^ 20))) =
     Inr (Some \<lparr>cat_a = Fin (1 / 10 ^ 20 / sinh (pi / 4)), cat_b = Fin (1 / 10 ^ 20 / 2),
                 cat_c = Fin (- (1 / 10 ^ 20 / sinh (pi / 4)))\<rparr>) \<and>
   Fin 0 < Fin (1 / 10 ^ 20 / sinh (pi / 4))"
proof -
  have some: "solveCatenary ((Fin 0, Fin 0), (Fin (1 / 10 ^ 20), Fin 0)) (Fin (2 * (1 / 10 ^ 20))) =
     Inr (Some \<lparr>cat_a = Fin (1 / 10 ^ 20 / sinh (pi / 4)), cat_b = Fin (1 / 10 ^ 20 / 2),
                 cat_c = Fin (- (1 / 10 ^ 20 / sinh (pi / 4)))\<rparr>)"
    by (rule small_chain_solution) simp_all
  show ?thesis
    using solveCatenary_positive_a [OF some] some by simp
qed

subsection \<open>The order of the two points\<close>









subsection \<open>The Jacobian\<close>

text \<open>
  C9. The two solvers do not fulfil the same contract, because the Newton-Raphson solver
  works with a wrong Jacobian: the entries \<open>J12\<close> and \<open>J22\<close>, which the source comments as
  the partial derivatives of the first two residuals with respect to \<open>b\<close>, are
  \<open>sinh((x - b) / a)\<close>, and the partial derivatives are \<open>- sinh((x - b) / a)\<close>. At the
  parameters \<open>(1, 1, 0)\<close> for the points \<open>(0, 0)\<close> and \<open>(10, 5)\<close> and \<open>s = 12\<close> the entry
  \<open>J12\<close> is \<open>sinh(-1)\<close>, which is negative, where the derivative of the first residual
  with respect to \<open>b\<close> is \<open>- sinh(-1)\<close>, which is positive.
\<close>

theorem jacobian_wrong_sign:
  "jacobian ((Fin 0, Fin 0), (Fin 10, Fin 5)) (Fin 12) (Fin 1, Fin 1, Fin 0) ! 0 ! 1 =
     Fin (sinh (- 1)) \<and>
   ((\<lambda>b. fst (spec_residuals (0, 0) (10, 5) 12 (1, b, 0))) has_real_derivative - sinh (- 1))
     (at 1) \<and>
   sinh (- 1) < (0::real) \<and> (0::real) < - sinh (- 1)"
proof -
  have j: "jacobian ((Fin 0, Fin 0), (Fin 10, Fin 5)) (Fin 12) (Fin 1, Fin 1, Fin 0) ! 0 ! 1 =
     Fin (sinh (- 1))"
    by (simp add: jacobian_def minus_number_def Let_def)
  have d: "((\<lambda>b. fst (spec_residuals (0, 0) (10, 5) 12 (1, b, 0))) has_real_derivative
      - sinh (- 1)) (at 1)"
    unfolding spec_residuals_def by (auto intro!: derivative_eq_intros)
  have s: "sinh (- 1) < (0::real)" by simp
  from j d s show ?thesis by simp
qed

subsection \<open>The closed-form solver\<close>

lemma iterateX_NaN: "iterateX m NaN prevx count = NaN"
  by (subst iterateX.simps) (simp add: minus_number_def)

lemma iterateX_PosInf: "iterateX PosInf PosInf (Fin p) 0 = NaN"
  apply (subst iterateX.simps)
  apply (simp add: minus_number_def)
  apply (subst iterateX.simps)
  apply (simp add: minus_number_def)
  done

lemma NaN_result:
  assumes "m = NaN \<or> m = PosInf \<or> (\<exists>r. m = Fin r \<and> r < 1)"
  shows "iterateX m (Math_acosh m + Fin 1) (Fin (- 1)) 0 = NaN"
  using assms by (auto simp add: iterateX_NaN iterateX_PosInf)

lemma m_degenerate:
  assumes "x1 = x2 \<or> s\<^sup>2 \<le> (y2 - y1)\<^sup>2"
  shows "Math_sqrt (Fin s * Fin s - (Fin y2 - Fin y1) * (Fin y2 - Fin y1)) / (Fin x2 - Fin x1) = NaN \<or>
         Math_sqrt (Fin s * Fin s - (Fin y2 - Fin y1) * (Fin y2 - Fin y1)) / (Fin x2 - Fin x1) = PosInf \<or>
         (\<exists>r. Math_sqrt (Fin s * Fin s - (Fin y2 - Fin y1) * (Fin y2 - Fin y1)) / (Fin x2 - Fin x1) = Fin r \<and> r < 1)"
proof -
  define d where "d = s * s - (y2 - y1) * (y2 - y1)"
  define h where "h = x2 - x1"
  have m: "Math_sqrt (Fin s * Fin s - (Fin y2 - Fin y1) * (Fin y2 - Fin y1)) / (Fin x2 - Fin x1) =
        Math_sqrt (Fin d) / Fin h"
    by (simp add: minus_number_def d_def h_def)
  from assms have "h = 0 \<or> d \<le> 0" by (auto simp add: h_def d_def power2_eq_square)
  then show ?thesis unfolding m by (cases "d < 0"; cases "h = 0"; cases "d = 0") auto
qed

text \<open>
  C10, as the code has it. The closed-form solver is a total function without validation:
  it returns a parameter object for every input. When the coordinates and \<open>s\<close> are finite
  and the two points share their x-coordinate or \<open>s\<^sup>2 \<le> (y2 - y1)\<^sup>2\<close>, the result is not
  finite: its parameters are NaN.
\<close>

theorem solveCatenaryApp_infeasible:
  "x1 = x2 \<or> s\<^sup>2 \<le> (y2 - y1)\<^sup>2 \<Longrightarrow>
     \<not> finite_result (solveCatenaryApp ((Fin x1, Fin y1), (Fin x2, Fin y2)) (Fin s))"
proof -
  assume a: "x1 = x2 \<or> s\<^sup>2 \<le> (y2 - y1)\<^sup>2"
  have x: "iterateX (Math_sqrt (Fin s * Fin s - (Fin y2 - Fin y1) * (Fin y2 - Fin y1)) / (Fin x2 - Fin x1))
      (Math_acosh (Math_sqrt (Fin s * Fin s - (Fin y2 - Fin y1) * (Fin y2 - Fin y1)) / (Fin x2 - Fin x1)) + Fin 1)
      (Fin (- 1)) 0 = NaN"
    using a by (intro NaN_result m_degenerate)
  have "solveCatenaryApp ((Fin x1, Fin y1), (Fin x2, Fin y2)) (Fin s) =
       \<lparr>cat_a = NaN, cat_b = NaN, cat_c = NaN\<rparr>"
    unfolding solveCatenaryApp_def
    by (simp only: Let_def prod.case x NaN_absorb)
  then show ?thesis by (simp add: finite_result_def)
qed

theorem solveCatenaryApp_infeasible_witness:
  "((10::real) = 10 \<or> (5::real)\<^sup>2 \<le> (7 - 0)\<^sup>2) \<and>
   \<not> finite_result (solveCatenaryApp ((Fin 10, Fin 0), (Fin 10, Fin 7)) (Fin 5)) \<and>
   ((0::real) = 10 \<or> (5::real)\<^sup>2 \<le> (7 - 0)\<^sup>2) \<and>
   \<not> finite_result (solveCatenaryApp ((Fin 0, Fin 0), (Fin 10, Fin 7)) (Fin 5))"
  using solveCatenaryApp_infeasible [of 10 10 5 7 0] solveCatenaryApp_infeasible [of 0 10 5 7 0]
  by simp

lemma sinh_less_mult_cosh:
  assumes "0 < (x::real)"
  shows "sinh x < x * cosh x"
proof -
  define f :: "real \<Rightarrow> real" where "f = (\<lambda>t. t * cosh t - sinh t)"
  have der: "(f has_real_derivative t * sinh t) (at t)" for t
    unfolding f_def by (auto intro!: derivative_eq_intros)
  have "f 0 < f x"
  proof (rule DERIV_pos_imp_increasing_open [OF assms])
    show "\<exists>y. (f has_real_derivative y) (at t) \<and> 0 < y" if "0 < t" for t
      using der [of t] that by (intro exI [of _ "t * sinh t"]) simp
    show "continuous_on {0..x} f"
      by (rule DERIV_atLeastAtMost_imp_continuous_on) (use der in blast)
  qed
  then show ?thesis by (simp add: f_def)
qed

lemma one_less_cosh: "0 < (x::real) \<Longrightarrow> 1 < cosh x"
  using cosh_real_nonneg_less_iff [of 0 x] by simp

lemma newton_step_positive:
  assumes "0 < (x::real)"
  shows "0 < x - (sinh x - 1 * x) / (cosh x - 1)"
proof -
  have c: "0 < cosh x - 1" using one_less_cosh [OF assms] by simp
  have "sinh x - x < x * (cosh x - 1)"
    using sinh_less_mult_cosh [OF assms] by (simp add: algebra_simps)
  then have "(sinh x - x) / (cosh x - 1) < x"
    using c by (simp add: pos_divide_less_eq)
  then show ?thesis by simp
qed

lemma iterateX_positive:
  "0 < x \<Longrightarrow> \<exists>x'. iterateX (Fin 1) (Fin x) prevx count = Fin x' \<and> 0 < x'"
proof (induction "100 - count" arbitrary: x prevx count)
  case 0
  then show ?case by (subst iterateX.simps) simp
next
  case (Suc n)
  have c: "cosh x - 1 \<noteq> 0" using Suc.prems by simp
  have step: "Fin x - (Math_sinh (Fin x) - Fin 1 * Fin x) / (Math_cosh (Fin x) - Fin 1) =
      Fin (x - (sinh x - 1 * x) / (cosh x - 1))"
    using c by (simp add: minus_number_def)
  have n: "n = 100 - (count + 1)" using Suc.hyps(2) by simp
  show ?case
  proof (cases "count < 100 \<and> Fin (1 / 10 ^ 6) < \<bar>Fin x - prevx\<bar>")
    case True
    then show ?thesis
      using Suc.hyps(1) [OF n newton_step_positive [OF Suc.prems], of "Fin x"]
      by (subst iterateX.simps) (simp only: step if_True simp_thms)
  next
    case False
    then show ?thesis using Suc.prems by (subst iterateX.simps) auto
  qed
qed

text \<open>
  An arc length below the straight-line distance does not make the result infinite or
  NaN: for the points \<open>(0, 0)\<close> and \<open>(1, 0)\<close> and \<open>s = -1\<close>, which is less than the
  distance 1, the solver computes \<open>m = 1\<close>, the iteration stays positive, and the three
  parameters are finite.
\<close>

theorem solveCatenaryApp_counterexample:
  "infeasible (0, 0) (1, 0) (- 1) \<and>
   finite_result (solveCatenaryApp ((Fin 0, Fin 0), (Fin 1, Fin 0)) (Fin (- 1)))"
proof -
  obtain x' where x: "iterateX (Fin 1) (Fin 1) (Fin (- 1)) 0 = Fin x'" and pos: "0 < x'"
    using iterateX_positive [of 1 "Fin (- 1)" 0] by auto
  have m: "Math_sqrt (Fin (- 1) * Fin (- 1) - (Fin 0 - Fin 0) * (Fin 0 - Fin 0)) / (Fin 1 - Fin 0) = Fin 1"
    by (simp add: minus_number_def)
  have "finite_result (solveCatenaryApp ((Fin 0, Fin 0), (Fin 1, Fin 0)) (Fin (- 1)))"
    unfolding solveCatenaryApp_def
    apply (simp only: Let_def prod.case m)
    apply (simp add: x minus_number_def finite_result_def)
    using pos apply simp
    done
  then show ?thesis by (simp add: infeasible_def)
qed

end
